theory Spec2Isabelle
  imports Complex_Main "HOL-Library.Sublist"
begin

section \<open>Python values\<close>

text \<open>
  The program handles JSON-decoded values. A float is either a finite number, modelled by
  the real it denotes, or one of the three special values. A finite result whose magnitude
  reaches \<open>float_overflow\<close> is beyond the largest double after rounding: float arithmetic
  then gives an infinity and a conversion from an int raises OverflowError. Below that
  bound the rounding to 53 bits is not modelled: finite arithmetic is exact. Text is a list
  of 8-bit characters.
\<close>

datatype pyfloat = Fin real | PosInf | NegInf | NaN

definition float_overflow :: real where
  "float_overflow = 2 ^ 1024 - 2 ^ 970"

definition fl_result :: "real \<Rightarrow> pyfloat" where
  "fl_result y =
     (if float_overflow \<le> y then PosInf
      else if y \<le> - float_overflow then NegInf
      else Fin y)"

datatype pyval =
    PNone
  | PBool bool
  | PInt int
  | PFloat pyfloat
  | PStr string
  | PList "pyval list"
  | PDict "(string \<times> pyval) list"

datatype error =
    AttributeError | TypeError | KeyError | IndexError | ValueError | OverflowError
  | UnicodeDecodeError | ClientError

definition bind_err :: "error + 'a \<Rightarrow> ('a \<Rightarrow> error + 'b) \<Rightarrow> error + 'b" where
  "bind_err r f = (case r of Inl e \<Rightarrow> Inl e | Inr v \<Rightarrow> f v)"

text \<open>Truth value of an object, as \<^verbatim>\<open>x or y\<close> and \<^verbatim>\<open>if x\<close> test it.\<close>

fun truthy :: "pyval \<Rightarrow> bool" where
  "truthy PNone = False"
| "truthy (PBool b) = b"
| "truthy (PInt i) = (i \<noteq> 0)"
| "truthy (PFloat f) = (f \<noteq> Fin 0)"
| "truthy (PStr s) = (s \<noteq> [])"
| "truthy (PList xs) = (xs \<noteq> [])"
| "truthy (PDict d) = (d \<noteq> [])"

fun is_mapping :: "pyval \<Rightarrow> bool" where
  "is_mapping (PDict d) = True"
| "is_mapping _ = False"

definition dict_get :: "(string \<times> pyval) list \<Rightarrow> string \<Rightarrow> pyval \<Rightarrow> pyval" where
  "dict_get d k dflt = (case map_of d k of None \<Rightarrow> dflt | Some v \<Rightarrow> v)"

text \<open>\<^verbatim>\<open>x.get(k, dflt)\<close>: only a dict has the method.\<close>

fun py_get :: "pyval \<Rightarrow> string \<Rightarrow> pyval \<Rightarrow> error + pyval" where
  "py_get (PDict d) k dflt = Inr (dict_get d k dflt)"
| "py_get _ k dflt = Inl AttributeError"

section \<open>Field Normalizer\<close>

subsection \<open>safe_get_value\<close>

text \<open>
  \<^verbatim>\<open>
  def safe_get_value(data, *keys, default=''):
      try:
          result = data or {}
          for key in keys:
              if not isinstance(result, Mapping):
                  return default
              result = result.get(key, {})
          return result if result is not None else default
      except (AttributeError, TypeError):
          return default
  \<close>
  \<open>safe_get_loop\<close> is the for loop with the return that follows it.
\<close>

fun safe_get_loop :: "pyval \<Rightarrow> string list \<Rightarrow> pyval \<Rightarrow> error + pyval" where
  "safe_get_loop result [] dflt = Inr (if result \<noteq> PNone then result else dflt)"
| "safe_get_loop result (key # keys) dflt =
     (if \<not> is_mapping result then Inr dflt
      else bind_err (py_get result key (PDict [])) (\<lambda>r. safe_get_loop r keys dflt))"

definition safe_get_value :: "pyval \<Rightarrow> string list \<Rightarrow> pyval \<Rightarrow> error + pyval" where
  "safe_get_value data keys dflt =
     (case safe_get_loop (if truthy data then data else PDict []) keys dflt of
        Inl e \<Rightarrow> (if e = AttributeError \<or> e = TypeError then Inr dflt else Inl e)
      | Inr v \<Rightarrow> Inr v)"

subsection \<open>safe_get_grid_value\<close>

text \<open>\<^verbatim>\<open>x[0]\<close>. The keys of a dict are strings here, so \<^verbatim>\<open>d[0]\<close> is a KeyError.\<close>

fun py_index0 :: "pyval \<Rightarrow> error + pyval" where
  "py_index0 (PList xs) = (case xs of [] \<Rightarrow> Inl IndexError | x # _ \<Rightarrow> Inr x)"
| "py_index0 (PStr s) = (case s of [] \<Rightarrow> Inl IndexError | c # _ \<Rightarrow> Inr (PStr [c]))"
| "py_index0 (PDict d) = Inl KeyError"
| "py_index0 _ = Inl TypeError"

text \<open>
  \<^verbatim>\<open>
  def safe_get_grid_value(grid_data, property_name):
      try:
          values = grid_data.get(property_name, {}).get('values', [])
          return values[0].get('value', '') if values else ''
      except (IndexError, AttributeError, TypeError):
          return ''
  \<close>
\<close>

definition safe_get_grid_value :: "pyval \<Rightarrow> string \<Rightarrow> error + pyval" where
  "safe_get_grid_value grid_data property_name =
     (case bind_err (py_get grid_data property_name (PDict [])) (\<lambda>p.
           bind_err (py_get p ''values'' (PList [])) (\<lambda>values.
             if truthy values
             then bind_err (py_index0 values) (\<lambda>v. py_get v ''value'' (PStr ''''))
             else Inr (PStr ''''))) of
        Inl e \<Rightarrow> (if e = IndexError \<or> e = AttributeError \<or> e = TypeError
                  then Inr (PStr '''') else Inl e)
      | Inr v \<Rightarrow> Inr v)"

subsection \<open>format_number\<close>

text \<open>
  \<^verbatim>\<open>float(x)\<close>. Parsing of a string is the built-in's work and is a parameter
  \<open>float_of_str\<close>, with \<open>None\<close> for the ValueError of an unparsable string. An int too
  large for a double raises OverflowError.
\<close>

fun py_float :: "(string \<Rightarrow> pyfloat option) \<Rightarrow> pyval \<Rightarrow> error + pyfloat" where
  "py_float float_of_str PNone = Inl TypeError"
| "py_float float_of_str (PBool b) = Inr (Fin (if b then 1 else 0))"
| "py_float float_of_str (PInt i) =
     (if float_overflow \<le> \<bar>of_int i\<bar> then Inl OverflowError else Inr (Fin (of_int i)))"
| "py_float float_of_str (PFloat f) = Inr f"
| "py_float float_of_str (PStr s) =
     (case float_of_str s of None \<Rightarrow> Inl ValueError | Some f \<Rightarrow> Inr f)"
| "py_float float_of_str (PList xs) = Inl TypeError"
| "py_float float_of_str (PDict d) = Inl TypeError"

text \<open>\<^verbatim>\<open>int(f)\<close> of a float truncates towards zero; it raises on the special values.\<close>

fun py_int_of_float :: "pyfloat \<Rightarrow> error + int" where
  "py_int_of_float (Fin x) = Inr (if 0 \<le> x then \<lfloor>x\<rfloor> else \<lceil>x\<rceil>)"
| "py_int_of_float PosInf = Inl OverflowError"
| "py_int_of_float NegInf = Inl OverflowError"
| "py_int_of_float NaN = Inl ValueError"

text \<open>
  \<^verbatim>\<open>
  def format_number(value):
      if value is None or value == '':
          return ''
      try:
          float_val = float(value)
          return float_val if float_val != int(float_val) else int(float_val)
      except (ValueError, TypeError):
          return value
  \<close>
\<close>

definition format_number :: "(string \<Rightarrow> pyfloat option) \<Rightarrow> pyval \<Rightarrow> error + pyval" where
  "format_number float_of_str v =
     (if v = PNone \<or> v = PStr '''' then Inr (PStr '''')
      else
        (case bind_err (py_float float_of_str v) (\<lambda>float_val.
              bind_err (py_int_of_float float_val) (\<lambda>i.
                Inr (if float_val \<noteq> Fin (of_int i) then PFloat float_val else PInt i))) of
           Inl e \<Rightarrow> (if e = ValueError \<or> e = TypeError then Inr v else Inl e)
         | Inr r \<Rightarrow> Inr r))"

subsection \<open>Strings\<close>

abbreviation dquote :: char where "dquote \<equiv> CHR 0x22"
abbreviation newline :: char where "newline \<equiv> CHR 0x0A"
abbreviation creturn :: char where "creturn \<equiv> CHR 0x0D"
abbreviation backtick :: char where "backtick \<equiv> CHR 0x60"

text \<open>\<^verbatim>\<open>s.strip(chars)\<close>: drop the characters of the set at both ends.\<close>

definition py_strip :: "(char \<Rightarrow> bool) \<Rightarrow> string \<Rightarrow> string" where
  "py_strip P s = rev (dropWhile P (rev (dropWhile P s)))"

text \<open>
  What \<^verbatim>\<open>s.strip()\<close> takes for whitespace, among the code points below 256: tab to
  carriage return, the four separators 0x1C to 0x1F, space, 0x85 and 0xA0.
\<close>

definition is_space :: "char \<Rightarrow> bool" where
  "is_space c =
     (let n = (of_char c :: nat)
      in (9 \<le> n \<and> n \<le> 13) \<or> (28 \<le> n \<and> n \<le> 32) \<or> n = 133 \<or> n = 160)"

text \<open>\<^verbatim>\<open>s.replace(a, b)\<close> for a single character \<open>a\<close>.\<close>

definition replace_char :: "char \<Rightarrow> string \<Rightarrow> string \<Rightarrow> string" where
  "replace_char a b s = concat (map (\<lambda>c. if c = a then b else [c]) s)"

text \<open>Decimal digits of a number, for \<^verbatim>\<open>str(i)\<close>.\<close>

fun digits_of_nat :: "nat \<Rightarrow> string" where
  "digits_of_nat n =
     (if n < 10 then [char_of (48 + n)]
      else digits_of_nat (n div 10) @ [char_of (48 + n mod 10)])"

declare digits_of_nat.simps [simp del]

definition str_of_int :: "int \<Rightarrow> string" where
  "str_of_int i = (if i < 0 then CHR ''-'' # digits_of_nat (nat (- i)) else digits_of_nat (nat i))"

text \<open>
  \<^verbatim>\<open>str(x)\<close>, also what an f-string renders. The interpreter refuses, with ValueError, to
  convert an int of more than 4300 decimal digits to text (the default of
  \<^verbatim>\<open>sys.set_int_max_str_digits\<close>, in CPython 3.11 and the patched releases before it). The
  text of a float and of a non-empty list or dict is the built-in's work and is a parameter
  \<open>py_repr\<close>, which may raise: a list can hold such an int.
\<close>

definition int_max_str_digits :: nat where
  "int_max_str_digits = 4300"

fun py_str :: "(pyval \<Rightarrow> error + string) \<Rightarrow> pyval \<Rightarrow> error + string" where
  "py_str py_repr PNone = Inr ''None''"
| "py_str py_repr (PBool b) = Inr (if b then ''True'' else ''False'')"
| "py_str py_repr (PInt i) =
     (if 10 ^ int_max_str_digits \<le> \<bar>i\<bar> then Inl ValueError else Inr (str_of_int i))"
| "py_str py_repr (PStr s) = Inr s"
| "py_str py_repr (PFloat f) = py_repr (PFloat f)"
| "py_str py_repr (PList xs) = (if xs = [] then Inr ''[]'' else py_repr (PList xs))"
| "py_str py_repr (PDict d) = (if d = [] then Inr ''{}'' else py_repr (PDict d))"

subsection \<open>Arithmetic of the Fahrenheit conversion\<close>

text \<open>
  \<^verbatim>\<open>x * 9\<close>, \<^verbatim>\<open>x / 5\<close> and \<^verbatim>\<open>x + 32\<close> with an integer literal on the right, which is
  positive in all three uses: a special float value is left as it is. A bool counts as
  0 or 1; a string or a list is repeated by \<^verbatim>\<open>*\<close> and refused by the other two. The
  quotient of two ints that is too large for a double raises OverflowError.
\<close>

fun fl_apply :: "(real \<Rightarrow> real) \<Rightarrow> pyfloat \<Rightarrow> pyfloat" where
  "fl_apply g (Fin x) = fl_result (g x)"
| "fl_apply g f = f"

fun py_mul :: "pyval \<Rightarrow> int \<Rightarrow> error + pyval" where
  "py_mul (PBool b) n = Inr (PInt ((if b then 1 else 0) * n))"
| "py_mul (PInt i) n = Inr (PInt (i * n))"
| "py_mul (PFloat f) n = Inr (PFloat (fl_apply (\<lambda>x. x * of_int n) f))"
| "py_mul (PStr s) n = Inr (PStr (concat (replicate (nat n) s)))"
| "py_mul (PList xs) n = Inr (PList (concat (replicate (nat n) xs)))"
| "py_mul PNone n = Inl TypeError"
| "py_mul (PDict d) n = Inl TypeError"

fun py_truediv :: "pyval \<Rightarrow> int \<Rightarrow> error + pyval" where
  "py_truediv (PBool b) n = Inr (PFloat (Fin ((if b then 1 else 0) / of_int n)))"
| "py_truediv (PInt i) n =
     (if float_overflow \<le> \<bar>of_int i / of_int n\<bar> then Inl OverflowError
      else Inr (PFloat (Fin (of_int i / of_int n))))"
| "py_truediv (PFloat f) n = Inr (PFloat (fl_apply (\<lambda>x. x / of_int n) f))"
| "py_truediv _ n = Inl TypeError"

fun py_add :: "pyval \<Rightarrow> int \<Rightarrow> error + pyval" where
  "py_add (PBool b) n = Inr (PInt ((if b then 1 else 0) + n))"
| "py_add (PInt i) n = Inr (PInt (i + n))"
| "py_add (PFloat f) n = Inr (PFloat (fl_apply (\<lambda>x. x + of_int n) f))"
| "py_add _ n = Inl TypeError"

subsection \<open>process_weather_data\<close>

definition FIELDNAMES :: "string list" where
  "FIELDNAMES =
     [''timestamp'', ''region'', ''temperature_celsius'', ''temperature_fahrenheit'',
      ''humidity'', ''wind_speed_ms'', ''wind_direction'', ''barometric_pressure'',
      ''visibility'', ''dew_point'', ''heat_index'', ''wind_chill'', ''present_weather'',
      ''forecast_temp'', ''short_forecast'', ''detailed_forecast'', ''snow_level'',
      ''ice_accumulation'', ''precipitation_probability'', ''max_temperature'',
      ''min_temperature'', ''uv_index'', ''has_alerts'']"

text \<open>A dict keeps the order of insertion; storing under a key it has keeps the key's place.\<close>

fun dict_set :: "(string \<times> 'v) list \<Rightarrow> string \<Rightarrow> 'v \<Rightarrow> (string \<times> 'v) list" where
  "dict_set [] k v = [(k, v)]"
| "dict_set ((k', v') # d) k v = (if k' = k then (k, v) # d else (k', v') # dict_set d k v)"

fun dict_update :: "(string \<times> 'v) list \<Rightarrow> (string \<times> 'v) list \<Rightarrow> (string \<times> 'v) list" where
  "dict_update d [] = d"
| "dict_update d ((k, v) # kvs) = dict_update (dict_set d k v) kvs"

text \<open>The items of a dict display are evaluated in order; the first exception ends it.\<close>

fun eval_items :: "(string \<times> (error + pyval)) list \<Rightarrow> error + (string \<times> pyval) list" where
  "eval_items [] = Inr []"
| "eval_items ((k, r) # rest) =
     bind_err r (\<lambda>v. bind_err (eval_items rest) (\<lambda>vs. Inr ((k, v) # vs)))"

text \<open>
  The expression of the field \<^verbatim>\<open>temperature_fahrenheit\<close>, before \<^verbatim>\<open>format_number\<close>:
  \<^verbatim>\<open>
  safe_get_value(current, 'temperature', 'value', default=0) * 9/5 + 32
  if safe_get_value(current, 'temperature', 'value') is not None else ''
  \<close>
\<close>

definition fahrenheit_expr :: "pyval \<Rightarrow> error + pyval" where
  "fahrenheit_expr current =
     bind_err (safe_get_value current [''temperature'', ''value''] (PStr '''')) (\<lambda>c.
       if c \<noteq> PNone
       then bind_err (safe_get_value current [''temperature'', ''value''] (PInt 0)) (\<lambda>t.
              bind_err (py_mul t 9) (\<lambda>m.
                bind_err (py_truediv m 5) (\<lambda>d. py_add d 32)))
       else Inr (PStr ''''))"

text \<open>
  The function, with the clock reading \<open>timestamp\<close> as a parameter. Its handler logs the
  exception and raises it again, so an exception of the body is the result.
\<close>

definition process_weather_data ::
  "string \<Rightarrow> (string \<Rightarrow> pyfloat option) \<Rightarrow> (pyval \<Rightarrow> error + string) \<Rightarrow> pyval \<Rightarrow> string
     \<Rightarrow> error + (string \<times> pyval) list" where
  "process_weather_data timestamp float_of_str py_repr raw_data region_name =
     bind_err (bind_err (py_get raw_data ''current'' (PDict []))
                 (\<lambda>c. py_get c ''properties'' (PDict []))) (\<lambda>current.
     bind_err (bind_err (bind_err (py_get raw_data ''forecast'' (PDict []))
                 (\<lambda>f. py_get f ''properties'' (PDict [])))
                 (\<lambda>p. py_get p ''periods'' (PList []))) (\<lambda>forecast_periods.
     bind_err (if truthy forecast_periods then py_index0 forecast_periods
               else Inr (PDict [])) (\<lambda>forecast.
     bind_err (bind_err (py_get raw_data ''grid'' (PDict []))
                 (\<lambda>g. py_get g ''properties'' (PDict []))) (\<lambda>grid.
     let num = (\<lambda>r. bind_err r (format_number float_of_str));
         txt = (\<lambda>r. bind_err r (py_str py_repr))
     in
     bind_err (eval_items
       [(''timestamp'', Inr (PStr timestamp)),
        (''region'', Inr (PStr region_name)),
        (''temperature_celsius'', num (safe_get_value current [''temperature'', ''value''] (PStr ''''))),
        (''temperature_fahrenheit'', num (fahrenheit_expr current)),
        (''humidity'', num (safe_get_value current [''relativeHumidity'', ''value''] (PStr ''''))),
        (''wind_speed_ms'', num (safe_get_value current [''windSpeed'', ''value''] (PStr ''''))),
        (''wind_direction'', num (safe_get_value current [''windDirection'', ''value''] (PStr ''''))),
        (''barometric_pressure'', num (safe_get_value current [''barometricPressure'', ''value''] (PStr ''''))),
        (''visibility'', num (safe_get_value current [''visibility'', ''value''] (PStr ''''))),
        (''dew_point'', num (safe_get_value current [''dewpoint'', ''value''] (PStr ''''))),
        (''heat_index'', num (safe_get_value current [''heatIndex'', ''value''] (PStr ''''))),
        (''wind_chill'', num (safe_get_value current [''windChill'', ''value''] (PStr ''''))),
        (''present_weather'',
           bind_err (txt (safe_get_value current [''textDescription''] (PStr ''''))) (\<lambda>s. Inr (PStr s))),
        (''forecast_temp'', num (safe_get_value forecast [''temperature''] (PStr ''''))),
        (''short_forecast'',
           bind_err (txt (safe_get_value forecast [''shortForecast''] (PStr ''''))) (\<lambda>s. Inr (PStr s))),
        (''detailed_forecast'',
           bind_err (txt (safe_get_value forecast [''detailedForecast''] (PStr ''''))) (\<lambda>s.
             Inr (PStr (replace_char CHR '','' ''|'' (py_strip (\<lambda>c. c = dquote) s))))),
        (''snow_level'', num (safe_get_grid_value grid ''snowLevel'')),
        (''ice_accumulation'', num (safe_get_grid_value grid ''iceAccumulation'')),
        (''precipitation_probability'', num (safe_get_grid_value grid ''probabilityOfPrecipitation'')),
        (''max_temperature'', num (safe_get_grid_value grid ''maxTemperature'')),
        (''min_temperature'', num (safe_get_grid_value grid ''minTemperature'')),
        (''uv_index'', num (safe_get_grid_value grid ''maxDaytimeUVIndex'')),
        (''has_alerts'',
           bind_err (bind_err (py_get raw_data ''alerts'' (PDict []))
                       (\<lambda>a. py_get a ''features'' PNone)) (\<lambda>f.
             Inr (PStr (if truthy f then ''Yes'' else ''No''))))])
       (\<lambda>updates. Inr (dict_update (map (\<lambda>field. (field, PStr '''')) FIELDNAMES) updates))))))"

section \<open>Record Cleaner\<close>

text \<open>\<^verbatim>\<open>'""' in s\<close> and \<^verbatim>\<open>s.replace('""', '"')\<close>, which replaces from the left without overlap.\<close>

fun has_dquotes :: "string \<Rightarrow> bool" where
  "has_dquotes (a # b # s) = ((a = dquote \<and> b = dquote) \<or> has_dquotes (b # s))"
| "has_dquotes s = False"

fun replace_dquotes :: "string \<Rightarrow> string" where
  "replace_dquotes (a # b # s) =
     (if a = dquote \<and> b = dquote then dquote # replace_dquotes s
      else a # replace_dquotes (b # s))"
| "replace_dquotes s = s"

text \<open>
  \<^verbatim>\<open>
  while '""' in cleaned:
      cleaned = cleaned.replace('""', '"')
  \<close>
  The result is \<open>None\<close> when the loop does not end.
\<close>

partial_function (option) collapse_loop :: "string \<Rightarrow> string option" where
  "collapse_loop cleaned =
     (if has_dquotes cleaned then collapse_loop (replace_dquotes cleaned) else Some cleaned)"

declare collapse_loop.simps [code]

text \<open>
  \<^verbatim>\<open>
  def clean_value(value):
      if value is None:
          return ''
      if isinstance(value, bool):
          return str(value)
      if isinstance(value, (int, float)):
          return str(value)
      if isinstance(value, str):
          cleaned = value.strip().replace('\n', ' ').replace('\r', '')
          while '""' in cleaned:
              cleaned = cleaned.replace('""', '"')
          cleaned = cleaned.strip('"')
          if ',' in cleaned or '"' in cleaned:
              return f'"{cleaned.replace("`", "")}"'
          return cleaned
      return str(value)
  \<close>
\<close>

text \<open>
  The result is the string returned or the exception raised (\<^verbatim>\<open>str(value)\<close> can raise),
  and \<open>None\<close> when the loop does not end.
\<close>

definition clean_value :: "(pyval \<Rightarrow> error + string) \<Rightarrow> pyval \<Rightarrow> (error + string) option" where
  "clean_value py_repr v =
     (case v of
        PNone \<Rightarrow> Some (Inr '''')
      | PBool b \<Rightarrow> Some (py_str py_repr v)
      | PInt i \<Rightarrow> Some (py_str py_repr v)
      | PFloat f \<Rightarrow> Some (py_str py_repr v)
      | PStr s \<Rightarrow>
          Option.bind
            (collapse_loop
               (replace_char creturn '''' (replace_char newline '' '' (py_strip is_space s))))
            (\<lambda>collapsed.
               let cleaned = py_strip (\<lambda>c. c = dquote) collapsed
               in if CHR '','' \<in> set cleaned \<or> dquote \<in> set cleaned
                  then Some (Inr ([dquote] @ replace_char backtick '''' cleaned @ [dquote]))
                  else Some (Inr cleaned))
      | PList xs \<Rightarrow> Some (py_str py_repr v)
      | PDict d \<Rightarrow> Some (py_str py_repr v))"

text \<open>
  The cleaner in the words of its description, to compare with the code: each maximal run
  of quote characters becomes one quote.
\<close>

fun collapse_runs :: "string \<Rightarrow> string" where
  "collapse_runs (a # b # s) =
     (if a = dquote \<and> b = dquote then collapse_runs (b # s) else a # collapse_runs (b # s))"
| "collapse_runs s = s"

definition clean_text :: "string \<Rightarrow> string" where
  "clean_text s =
     (let trimmed = py_strip is_space s;
          unbroken = replace_char creturn '''' (replace_char newline '' '' trimmed);
          stripped = py_strip (\<lambda>c. c = dquote) (collapse_runs unbroken)
      in if CHR '','' \<in> set stripped \<or> dquote \<in> set stripped
         then [dquote] @ filter (\<lambda>c. c \<noteq> backtick) stripped @ [dquote]
         else stripped)"

text \<open>The same with newlines deleted, as the description has it.\<close>

definition clean_text_spec :: "string \<Rightarrow> string" where
  "clean_text_spec s =
     (let trimmed = py_strip is_space s;
          unbroken = filter (\<lambda>c. c \<noteq> newline \<and> c \<noteq> creturn) trimmed;
          stripped = py_strip (\<lambda>c. c = dquote) (collapse_runs unbroken)
      in if CHR '','' \<in> set stripped \<or> dquote \<in> set stripped
         then [dquote] @ filter (\<lambda>c. c \<noteq> backtick) stripped @ [dquote]
         else stripped)"

section \<open>Dataset Merger\<close>

type_synonym pydict = "(string \<times> pyval) list"

text \<open>\<^verbatim>\<open>d[k]\<close> of a dict raises KeyError on a missing key.\<close>

definition py_item :: "pydict \<Rightarrow> string \<Rightarrow> error + pyval" where
  "py_item d k = (case map_of d k of None \<Rightarrow> Inl KeyError | Some v \<Rightarrow> Inr v)"

text \<open>
  What lines 281 and 282 give: the key is absent from the store (\<^verbatim>\<open>NoSuchKey\<close>), the
  request fails with another client error, the bytes of the object are not UTF-8 (so
  \<^verbatim>\<open>decode('utf-8')\<close> raises UnicodeDecodeError), or the decoded text of the object.
\<close>

datatype get_result = NoSuchKey | ClientFailure | Undecodable | Body string

text \<open>
  A computation of the merger ends with a value or an exception, or does not end
  (\<open>None\<close>).
\<close>

definition bind_run :: "(error + 'a) option \<Rightarrow> ('a \<Rightarrow> (error + 'b) option) \<Rightarrow> (error + 'b) option" where
  "bind_run m f = (case m of None \<Rightarrow> None | Some (Inl e) \<Rightarrow> Some (Inl e) | Some (Inr v) \<Rightarrow> f v)"

text \<open>
  The composite key of a row or record:
  \<^verbatim>\<open>f"{row['timestamp']}_{row['region']}"\<close>.
\<close>

definition entry_key :: "(pyval \<Rightarrow> error + string) \<Rightarrow> pydict \<Rightarrow> error + string" where
  "entry_key py_repr row =
     bind_err (py_item row ''timestamp'') (\<lambda>ts.
       bind_err (py_str py_repr ts) (\<lambda>t.
         bind_err (py_item row ''region'') (\<lambda>rg.
           bind_err (py_str py_repr rg) (\<lambda>r. Inr (t @ ''_'' @ r)))))"

text \<open>
  A row of \<^verbatim>\<open>csv.DictReader\<close> maps a field name to a string, or to None where the line
  was short.
\<close>

type_synonym csv_row = "(string \<times> string option) list"

definition as_pydict :: "csv_row \<Rightarrow> pydict" where
  "as_pydict row = map (\<lambda>(k, v). (k, case v of None \<Rightarrow> PNone | Some s \<Rightarrow> PStr s)) row"

text \<open>
  \<^verbatim>\<open>
  for row in reader:
      entry_key = f"{row['timestamp']}_{row['region']}"
      if entry_key not in existing_entries:
          existing_entries.add(entry_key)
          rows.append(row)
  \<close>
  over the rows the reader yields. The set \<^verbatim>\<open>existing_entries\<close> is kept as the list of its
  members in the order they were added.
\<close>

fun read_rows ::
  "(pyval \<Rightarrow> error + string) \<Rightarrow> pydict list \<Rightarrow> string list \<Rightarrow> pydict list
     \<Rightarrow> error + (string list \<times> pydict list)" where
  "read_rows py_repr [] existing_entries rows = Inr (existing_entries, rows)"
| "read_rows py_repr (row # rest) existing_entries rows =
     bind_err (entry_key py_repr row) (\<lambda>k.
       if k \<notin> set existing_entries
       then read_rows py_repr rest (existing_entries @ [k]) (rows @ [row])
       else read_rows py_repr rest existing_entries rows)"

text \<open>
  \<^verbatim>\<open>{k: clean_value(row.get(k, '')) for k in fields}\<close>, as the list of the values in
  the order of the field names, which is the order the writer puts them in.
\<close>

fun clean_fields ::
  "(pyval \<Rightarrow> error + string) \<Rightarrow> pydict \<Rightarrow> string list \<Rightarrow> (error + string list) option" where
  "clean_fields py_repr row [] = Some (Inr [])"
| "clean_fields py_repr row (k # ks) =
     bind_run (clean_value py_repr (dict_get row k (PStr ''''))) (\<lambda>c.
       bind_run (clean_fields py_repr row ks) (\<lambda>cs. Some (Inr (c # cs))))"

definition cleaned_row :: "(pyval \<Rightarrow> error + string) \<Rightarrow> pydict \<Rightarrow> (error + string list) option" where
  "cleaned_row py_repr row = clean_fields py_repr row FIELDNAMES"

text \<open>
  \<^verbatim>\<open>
  for row in rows:
      cleaned_row = {k: clean_value(row.get(k, '')) for k in FIELDNAMES}
      writer.writerow(cleaned_row)
  \<close>
  \<open>writerow\<close> is the text that the csv writer adds to the buffer for one row.
\<close>

fun write_rows ::
  "(string list \<Rightarrow> string) \<Rightarrow> (pyval \<Rightarrow> error + string) \<Rightarrow> pydict list
     \<Rightarrow> (error + string) option" where
  "write_rows writerow py_repr [] = Some (Inr [])"
| "write_rows writerow py_repr (row # rows) =
     bind_run (cleaned_row py_repr row) (\<lambda>c.
       bind_run (write_rows writerow py_repr rows) (\<lambda>rest. Some (Inr (writerow c @ rest))))"

text \<open>
  Lines 307 to 316, from the buffer \<open>output\<close> and the keys seen:
  \<^verbatim>\<open>
  new_entry_key = f"{data['timestamp']}_{data['region']}"
  if new_entry_key not in existing_entries:
      cleaned_data = {k: clean_value(data.get(k, '')) for k in FIELDNAMES}
      if not output.getvalue():
          writer.writeheader()
      writer.writerow(cleaned_data)
  \<close>
  The result is the buffer, which line 318 uploads.
\<close>

definition write_new_entry ::
  "(string list \<Rightarrow> string) \<Rightarrow> (pyval \<Rightarrow> error + string) \<Rightarrow> string \<Rightarrow> string list \<Rightarrow> pydict
     \<Rightarrow> (error + string) option" where
  "write_new_entry writerow py_repr output existing_entries data =
     bind_run (Some (entry_key py_repr data)) (\<lambda>new_entry_key.
       if new_entry_key \<notin> set existing_entries
       then bind_run (cleaned_row py_repr data) (\<lambda>cleaned_data.
              Some (Inr ((if output = [] then writerow FIELDNAMES else output)
                         @ writerow cleaned_data)))
       else Some (Inr output))"

text \<open>
  \<^verbatim>\<open>save_consolidated_data\<close>, lines 276 to 323. The csv module is outside the program:
  \<open>DictReader\<close> gives, for a text, the rows that iterating the reader yields and whether
  the iteration then raises \<^verbatim>\<open>csv.Error\<close>; \<open>writerow\<close> gives the text written for a row.
  The result is the body uploaded with \<^verbatim>\<open>put_object\<close>, or the exception that the outer
  handler logs and raises again. An exception of \<^verbatim>\<open>put_object\<close> itself is not modelled.
\<close>

definition save_consolidated_data ::
  "(string \<Rightarrow> csv_row list \<times> bool) \<Rightarrow> (string list \<Rightarrow> string) \<Rightarrow> (pyval \<Rightarrow> error + string)
     \<Rightarrow> get_result \<Rightarrow> pydict \<Rightarrow> (error + string) option" where
  "save_consolidated_data DictReader writerow py_repr existing data =
     (case existing of
        ClientFailure \<Rightarrow> Some (Inl ClientError)
      | Undecodable \<Rightarrow> Some (Inl UnicodeDecodeError)
      | NoSuchKey \<Rightarrow> write_new_entry writerow py_repr (writerow FIELDNAMES) [] data
      | Body existing_csv \<Rightarrow>
          if py_strip is_space existing_csv \<noteq> [] \<and> CHR '','' \<in> set existing_csv
          then
            (case DictReader existing_csv of
               (yielded, csv_error) \<Rightarrow>
                 bind_run (Some (read_rows py_repr (map as_pydict yielded) [] []))
                   (\<lambda>(existing_entries, rows).
                      if csv_error
                      then write_new_entry writerow py_repr (writerow FIELDNAMES)
                             existing_entries data
                      else bind_run (write_rows writerow py_repr rows) (\<lambda>written.
                             write_new_entry writerow py_repr (writerow FIELDNAMES @ written)
                               existing_entries data)))
          else write_new_entry writerow py_repr [] [] data)"

text \<open>The rows that are the first with their key, in the words of the description.\<close>

fun first_occurrences :: "('a \<Rightarrow> 'k) \<Rightarrow> 'a list \<Rightarrow> 'a list" where
  "first_occurrences key [] = []"
| "first_occurrences key (r # rs) =
     r # first_occurrences key (filter (\<lambda>r'. key r' \<noteq> key r) rs)"

text \<open>The cells written for a row that the reader gave: each string cleaned, None empty.\<close>

definition row_cells :: "csv_row \<Rightarrow> string list" where
  "row_cells row =
     map (\<lambda>k. case map_of row k of Some (Some s) \<Rightarrow> clean_text s | _ \<Rightarrow> '''') FIELDNAMES"

text \<open>
  The composite key of a row that the reader gave, when the row has both columns; the None
  of a short line reads \<^verbatim>\<open>None\<close>. A row without one of the columns has no key: the code
  raises KeyError on it.
\<close>

definition cell_str :: "string option \<Rightarrow> string" where
  "cell_str v = (case v of None \<Rightarrow> ''None'' | Some s \<Rightarrow> s)"

definition has_key_columns :: "csv_row \<Rightarrow> bool" where
  "has_key_columns row = (map_of row ''timestamp'' \<noteq> None \<and> map_of row ''region'' \<noteq> None)"

definition row_key :: "csv_row \<Rightarrow> string" where
  "row_key row =
     (case (map_of row ''timestamp'', map_of row ''region'') of
        (Some t, Some r) \<Rightarrow> cell_str t @ ''_'' @ cell_str r
      | _ \<Rightarrow> [])"

text \<open>The composite key of a written row, whose first two cells are timestamp and region.\<close>

definition cells_key :: "string list \<Rightarrow> string" where
  "cells_key cells = (case cells of t # r # _ \<Rightarrow> t @ ''_'' @ r | _ \<Rightarrow> [])"

section \<open>The csv module\<close>

text \<open>
  The standard library's writer and reader in the default dialect (comma, quote character,
  doubled quotes, minimal quoting, not strict, lines ended by CR LF), to instantiate the
  two parameters of the merger on concrete texts. The limit on the size of a field is left
  out.
\<close>

definition needs_quotes :: "string \<Rightarrow> bool" where
  "needs_quotes f =
     (CHR '','' \<in> set f \<or> dquote \<in> set f \<or> creturn \<in> set f \<or> newline \<in> set f)"

definition quote_field :: "string \<Rightarrow> string" where
  "quote_field f =
     (if needs_quotes f then [dquote] @ replace_char dquote [dquote, dquote] f @ [dquote]
      else f)"

fun join_fields :: "string list \<Rightarrow> string" where
  "join_fields [] = []"
| "join_fields [f] = f"
| "join_fields (f # fs) = f @ '','' @ join_fields fs"

text \<open>A row of one empty field is written as a pair of quotes.\<close>

definition csv_writerow :: "string list \<Rightarrow> string" where
  "csv_writerow fields =
     (if fields = [[]] then [dquote, dquote] else join_fields (map quote_field fields))
     @ [creturn, newline]"

datatype csv_state =
  START_RECORD | START_FIELD | IN_FIELD | IN_QUOTED_FIELD | QUOTE_IN_QUOTED_FIELD | EAT_CRNL

type_synonym csv_parser = "csv_state \<times> string list \<times> string"

text \<open>
  One step of the reader's automaton: the state, the fields saved and the field being read.
  The character \<open>None\<close> is the end of a line handed to the reader; the result \<open>None\<close> is
  \<^verbatim>\<open>csv.Error\<close>.
\<close>

definition start_field :: "string list \<Rightarrow> string \<Rightarrow> char option \<Rightarrow> csv_parser option" where
  "start_field fields field c =
     (case c of
        None \<Rightarrow> Some (START_RECORD, fields @ [field], [])
      | Some ch \<Rightarrow>
          if ch = newline \<or> ch = creturn then Some (EAT_CRNL, fields @ [field], [])
          else if ch = dquote then Some (IN_QUOTED_FIELD, fields, field)
          else if ch = CHR '','' then Some (START_FIELD, fields @ [field], [])
          else Some (IN_FIELD, fields, field @ [ch]))"

fun process_char :: "csv_parser \<Rightarrow> char option \<Rightarrow> csv_parser option" where
  "process_char (START_RECORD, fields, field) c =
     (case c of
        None \<Rightarrow> Some (START_RECORD, fields, field)
      | Some ch \<Rightarrow>
          if ch = newline \<or> ch = creturn then Some (EAT_CRNL, fields, field)
          else start_field fields field c)"
| "process_char (START_FIELD, fields, field) c = start_field fields field c"
| "process_char (IN_FIELD, fields, field) c =
     (case c of
        None \<Rightarrow> Some (START_RECORD, fields @ [field], [])
      | Some ch \<Rightarrow>
          if ch = newline \<or> ch = creturn then Some (EAT_CRNL, fields @ [field], [])
          else if ch = CHR '','' then Some (START_FIELD, fields @ [field], [])
          else Some (IN_FIELD, fields, field @ [ch]))"
| "process_char (IN_QUOTED_FIELD, fields, field) c =
     (case c of
        None \<Rightarrow> Some (IN_QUOTED_FIELD, fields, field)
      | Some ch \<Rightarrow>
          if ch = dquote then Some (QUOTE_IN_QUOTED_FIELD, fields, field)
          else Some (IN_QUOTED_FIELD, fields, field @ [ch]))"
| "process_char (QUOTE_IN_QUOTED_FIELD, fields, field) c =
     (case c of
        None \<Rightarrow> Some (START_RECORD, fields @ [field], [])
      | Some ch \<Rightarrow>
          if ch = dquote then Some (IN_QUOTED_FIELD, fields, field @ [ch])
          else if ch = CHR '','' then Some (START_FIELD, fields @ [field], [])
          else if ch = newline \<or> ch = creturn then Some (EAT_CRNL, fields @ [field], [])
          else Some (IN_FIELD, fields, field @ [ch]))"
| "process_char (EAT_CRNL, fields, field) c =
     (case c of
        None \<Rightarrow> Some (START_RECORD, fields, field)
      | Some ch \<Rightarrow>
          if ch = newline \<or> ch = creturn then Some (EAT_CRNL, fields, field) else None)"

fun feed :: "csv_parser \<Rightarrow> char option list \<Rightarrow> csv_parser option" where
  "feed p [] = Some p"
| "feed p (c # cs) = (case process_char p c of None \<Rightarrow> None | Some p' \<Rightarrow> feed p' cs)"

text \<open>The lines of a text buffer, each with its newline.\<close>

fun split_lines :: "string \<Rightarrow> string \<Rightarrow> string list" where
  "split_lines cur [] = (if cur = [] then [] else [cur])"
| "split_lines cur (c # s) =
     (if c = newline then (cur @ [c]) # split_lines [] s else split_lines (cur @ [c]) s)"

text \<open>
  The records the reader yields from the lines, and whether it then raises. A record ends
  when the automaton is back at the start of a record at the end of a line; at the end of
  the input an open quoted field ends the last record.
\<close>

fun csv_records :: "csv_parser \<Rightarrow> string list \<Rightarrow> string list list \<times> bool" where
  "csv_records (st, fields, field) [] =
     (if field \<noteq> [] \<or> st = IN_QUOTED_FIELD then ([fields @ [field]], False) else ([], False))"
| "csv_records p (l # ls) =
     (case feed p (map Some l @ [None]) of
        None \<Rightarrow> ([], True)
      | Some (st, fields, field) \<Rightarrow>
          if st = START_RECORD
          then (case csv_records (START_RECORD, [], []) ls of (rs, e) \<Rightarrow> (fields # rs, e))
          else csv_records (st, fields, field) ls)"

text \<open>
  \<^verbatim>\<open>csv.DictReader\<close>: the first record gives the field names, empty records are skipped,
  a short row has None for the fields it lacks. The surplus values of a long row, which
  the reader stores under the key None, are left out: no string key reads them.
\<close>

definition row_dict :: "string list \<Rightarrow> string list \<Rightarrow> csv_row" where
  "row_dict fieldnames row =
     dict_update (dict_update [] (zip fieldnames (map Some row)))
       (map (\<lambda>k. (k, None)) (drop (length row) fieldnames))"

definition csv_DictReader :: "string \<Rightarrow> csv_row list \<times> bool" where
  "csv_DictReader text =
     (case csv_records (START_RECORD, [], []) (split_lines [] text) of
        ([], e) \<Rightarrow> ([], e)
      | (fieldnames # rs, e) \<Rightarrow> (map (row_dict fieldnames) (filter (\<lambda>r. r \<noteq> []) rs), e))"

section \<open>Properties of the Field Normalizer\<close>

lemma bind_err_simps [simp]:
  "bind_err (Inl e) f = Inl e" "bind_err (Inr v) f = f v"
  by (simp_all add: bind_err_def)

lemma float_overflow_large: "2 ^ 970 \<le> float_overflow"
  by (simp add: float_overflow_def)

lemma fl_result_small: "\<bar>y\<bar> < 2 ^ 970 \<Longrightarrow> fl_result y = Fin y"
  using float_overflow_large by (auto simp: fl_result_def)

lemma bind_err_raises: "(\<And>v. \<exists>e. f v = Inl e) \<Longrightarrow> \<exists>e. bind_err r f = Inl e"
  by (cases r) auto

subsection \<open>Nested lookup\<close>


lemma safe_get_loop_never_raises: "\<exists>v. safe_get_loop r keys dflt = Inr v"
proof (induction keys arbitrary: r)
  case Nil
  show ?case by simp
next
  case (Cons k ks)
  show ?case
  proof (cases r)
    case (PDict d)
    then show ?thesis using Cons.IH [of "dict_get d k (PDict [])"] by simp
  qed simp_all
qed

lemma safe_get_value_never_raises: "\<exists>v. safe_get_value data keys dflt = Inr v"
proof -
  obtain v where "safe_get_loop (if truthy data then data else PDict []) keys dflt = Inr v"
    using safe_get_loop_never_raises by blast
  then show ?thesis by (simp add: safe_get_value_def)
qed

lemma safe_get_value_missing:
  "map_of d k = None \<Longrightarrow> safe_get_value (PDict d) (k # ks) dflt = Inr (PDict [])"
proof -
  have loop: "safe_get_loop (PDict []) ks dflt = Inr (PDict [])" for ks
    by (induction ks) (simp_all add: dict_get_def)
  assume "map_of d k = None"
  then show ?thesis
    by (cases d) (simp_all add: safe_get_value_def dict_get_def loop)
qed

text \<open>
  C1. The nested lookup never raises, but a missing key does not give the default: the
  lookup of \<^verbatim>\<open>'temperature', 'value'\<close> in an empty mapping with default 0 returns the empty
  mapping that \<^verbatim>\<open>result.get(key, {})\<close> substitutes, not 0.
\<close>

theorem safe_get_value_missing_key_not_default:
  "safe_get_value (PDict []) [''temperature'', ''value''] (PInt 0) = Inr (PDict [])"
  by (simp add: safe_get_value_def dict_get_def)

subsection \<open>Fahrenheit field\<close>

lemma fahrenheit_expr_missing:
  "map_of cur ''temperature'' = None \<Longrightarrow> fahrenheit_expr (PDict cur) = Inl TypeError"
  by (simp add: fahrenheit_expr_def safe_get_value_missing)

lemma format_number_dict: "format_number fos (PDict d) = Inr (PDict d)"
  by (simp add: format_number_def)

text \<open>
  C2. With a Celsius value that is present but null, the record has an empty
  \<^verbatim>\<open>temperature_celsius\<close> and the \<^verbatim>\<open>temperature_fahrenheit\<close> 32: the guard compares with None
  a lookup whose default is the empty string, so it always holds, and the conversion runs
  on the default 0.
\<close>

theorem null_celsius_gives_32:
  "bind_err (process_weather_data timestamp float_of_str py_repr
       (PDict [(''current'', PDict [(''properties'',
          PDict [(''temperature'', PDict [(''value'', PNone)])])])]) region_name)
     (\<lambda>r. Inr (map_of r ''temperature_celsius'', map_of r ''temperature_fahrenheit''))
   = Inr (Some (PStr ''''), Some (PInt 32))"
proof -
  have pos: "\<not> float_overflow \<le> 0"
    using float_overflow_large by (simp add: not_le less_le_trans [of 0 "2 ^ 970"])
  have fah: "fahrenheit_expr (PDict [(''temperature'', PDict [(''value'', PNone)])])
               = Inr (PFloat (Fin 32))"
    by (simp add: fahrenheit_expr_def safe_get_value_def dict_get_def pos fl_result_small)
  show ?thesis
    by (simp add: dict_get_def process_weather_data_def safe_get_value_def fah
        format_number_def Let_def FIELDNAMES_def safe_get_grid_value_def)
qed

subsection \<open>Numeric formatting\<close>

text \<open>
  C3. On an infinite float, \<^verbatim>\<open>int(float_val)\<close> raises OverflowError, which the handler of
  \<^verbatim>\<open>format_number\<close> (ValueError, TypeError) does not catch: no value is returned.
\<close>

theorem format_number_infinity_raises:
  "format_number float_of_str (PFloat PosInf) = Inl OverflowError"
  by (simp add: format_number_def)

subsection \<open>Observation without a temperature\<close>

text \<open>
  C10. When the properties mapping of the current observation (as line 175 computes it)
  has no key \<^verbatim>\<open>temperature\<close>, \<^verbatim>\<open>process_weather_data\<close> raises: no record is produced.
\<close>

theorem missing_temperature_raises:
  assumes cur: "bind_err (py_get raw_data ''current'' (PDict []))
             (\<lambda>c. py_get c ''properties'' (PDict [])) = Inr (PDict cur)"
    and no_temp: "map_of cur ''temperature'' = None"
  shows "\<exists>e. process_weather_data timestamp float_of_str py_repr raw_data region_name = Inl e"
proof -
  have cel: "bind_err (safe_get_value (PDict cur) [''temperature'', ''value''] (PStr ''''))
               (format_number float_of_str) = Inr (PDict [])"
    using no_temp by (simp add: safe_get_value_missing format_number_dict)
  have fah: "bind_err (fahrenheit_expr (PDict cur)) (format_number float_of_str) = Inl TypeError"
    using no_temp by (simp add: fahrenheit_expr_missing)
  show ?thesis
    unfolding process_weather_data_def cur Let_def bind_err_simps(2) cel fah
    apply (rule bind_err_raises)
    apply (rule bind_err_raises)
    apply (rule bind_err_raises)
    apply (simp only: eval_items.simps bind_err_simps)
    apply blast
    done
qed

theorem missing_temperature_raises_witness:
  "bind_err (py_get (PDict [(''current'', PDict [(''properties'',
        PDict [(''relativeHumidity'', PDict [(''value'', PInt 10)])])])]) ''current'' (PDict []))
     (\<lambda>c. py_get c ''properties'' (PDict []))
     = Inr (PDict [(''relativeHumidity'', PDict [(''value'', PInt 10)])])
   \<and> map_of [(''relativeHumidity'', PDict [(''value'', PInt 10)])] ''temperature'' = None
   \<and> (\<exists>e. process_weather_data ''2024-01-01 00:00:00'' (\<lambda>s. None) (\<lambda>v. Inr ''{}'')
         (PDict [(''current'', PDict [(''properties'',
            PDict [(''relativeHumidity'', PDict [(''value'', PInt 10)])])])])
         ''Phoenix_AZ'' = Inl e)"
proof -
  have h1: "bind_err (py_get (PDict [(''current'', PDict [(''properties'',
        PDict [(''relativeHumidity'', PDict [(''value'', PInt 10)])])])]) ''current'' (PDict []))
     (\<lambda>c. py_get c ''properties'' (PDict []))
     = Inr (PDict [(''relativeHumidity'', PDict [(''value'', PInt 10)])])"
    by (simp add: dict_get_def)
  have h2: "map_of [(''relativeHumidity'', PDict [(''value'', PInt 10)])] ''temperature'' = None"
    by simp
  from missing_temperature_raises [OF h1 h2] h1 h2 show ?thesis by blast
qed

section \<open>Properties of the Record Cleaner\<close>

lemma length_replace_dquotes_le: "length (replace_dquotes s) \<le> length s"
  by (induction s rule: replace_dquotes.induct) auto

lemma length_replace_dquotes_less:
  "has_dquotes s \<Longrightarrow> length (replace_dquotes s) < length s"
proof (induction s rule: replace_dquotes.induct)
  case (1 a b s)
  show ?case
  proof (cases "a = dquote \<and> b = dquote")
    case True
    then show ?thesis using length_replace_dquotes_le [of s] by simp
  next
    case False
    then show ?thesis using 1 by auto
  qed
qed simp_all

lemma replace_dquotes_Nil [simp]: "replace_dquotes s = [] \<longleftrightarrow> s = []"
  by (induction s rule: replace_dquotes.induct) auto

lemma hd_replace_dquotes: "s \<noteq> [] \<Longrightarrow> hd (replace_dquotes s) = hd s"
  by (induction s rule: replace_dquotes.induct) auto

lemma collapse_runs_Cons:
  "collapse_runs (c # t) =
     (if t \<noteq> [] \<and> c = dquote \<and> hd t = dquote then collapse_runs t else c # collapse_runs t)"
  by (cases t) auto

lemma collapse_runs_replace: "collapse_runs (replace_dquotes s) = collapse_runs s"
proof (induction s rule: replace_dquotes.induct)
  case (1 a b s)
  show ?case
  proof (cases "a = dquote \<and> b = dquote")
    case True
    have "collapse_runs (dquote # replace_dquotes s) = collapse_runs (dquote # s)"
      using 1(1) [OF True] by (cases "s = []") (simp_all add: collapse_runs_Cons hd_replace_dquotes)
    with True show ?thesis by simp
  next
    case False
    have "collapse_runs (a # replace_dquotes (b # s)) = collapse_runs (a # b # s)"
      using 1(2) [OF False] False by (auto simp add: collapse_runs_Cons [of a] hd_replace_dquotes simp del: replace_dquotes.simps collapse_runs.simps)
    with False show ?thesis by auto
  qed
qed simp_all

lemma collapse_runs_id: "\<not> has_dquotes s \<Longrightarrow> collapse_runs s = s"
  by (induction s rule: collapse_runs.induct) auto

lemma collapse_loop_terminates: "collapse_loop s = Some (collapse_runs s)"
proof (induction "length s" arbitrary: s rule: less_induct)
  case less
  show ?case
  proof (cases "has_dquotes s")
    case True
    then have "collapse_loop s = collapse_loop (replace_dquotes s)"
      by (subst collapse_loop.simps) simp
    also have "\<dots> = Some (collapse_runs (replace_dquotes s))"
      using less [OF length_replace_dquotes_less [OF True]] .
    finally show ?thesis by (simp add: collapse_runs_replace)
  next
    case False
    then show ?thesis by (subst collapse_loop.simps) (simp add: collapse_runs_id)
  qed
qed

lemma replace_char_delete: "replace_char c [] s = filter (\<lambda>x. x \<noteq> c) s"
  by (induction s) (auto simp: replace_char_def)

lemma clean_value_str: "clean_value py_repr (PStr s) = Some (Inr (clean_text s))"
  by (simp add: clean_value_def clean_text_def collapse_loop_terminates replace_char_delete
      Let_def)

lemma clean_value_other:
  "v \<noteq> PNone \<Longrightarrow> (\<And>s. v \<noteq> PStr s) \<Longrightarrow> clean_value py_repr v = Some (py_str py_repr v)"
  by (cases v) (auto simp: clean_value_def)




text \<open>
  C5, as stated: embedded newlines are removed. The code puts a space in the place of each
  newline, so the two differ on a text with an embedded newline.
\<close>

theorem clean_value_newline_counterexample:
  "clean_value (\<lambda>v. Inr []) (PStr [CHR ''a'', newline, CHR ''b'']) = Some (Inr ''a b'')
   \<and> clean_text_spec [CHR ''a'', newline, CHR ''b''] = ''ab''"
  by (simp add: clean_value_def collapse_loop_terminates clean_text_spec_def py_strip_def
      is_space_def replace_char_def Let_def)

text \<open>
  C5, amended. For every string, the Record Cleaner trims surrounding whitespace, replaces
  each embedded newline by a space and deletes each carriage return, collapses every run
  of quote characters to one quote, strips leading and trailing quotes, and, exactly when
  the result still has a comma or a quote, wraps it in quotes and removes all backticks;
  otherwise the result is returned unwrapped, backticks intact.
\<close>

theorem clean_value_text: "clean_value py_repr (PStr s) = Some (Inr (clean_text s))"
  by (simp add: clean_value_def clean_text_def collapse_loop_terminates replace_char_delete
      Let_def)
section \<open>Properties of the Dataset Merger\<close>

lemma bind_run_simps [simp]:
  "bind_run None f = None"
  "bind_run (Some (Inl e)) f = Some (Inl e)"
  "bind_run (Some (Inr v)) f = f v"
  by (simp_all add: bind_run_def)

subsection \<open>Rows read back are cleaned without an exception\<close>

lemma clean_text_Nil: "clean_text [] = []"
  by (simp add: clean_text_def py_strip_def replace_char_def)

lemma map_of_as_pydict:
  "map_of (as_pydict row) k =
     map_option (\<lambda>v. case v of None \<Rightarrow> PNone | Some s \<Rightarrow> PStr s) (map_of row k)"
  by (induction row) (auto simp: as_pydict_def)

lemma clean_value_row_field:
  "clean_value py_repr (dict_get (as_pydict row) k (PStr '''')) =
     Some (Inr (case map_of row k of Some (Some s) \<Rightarrow> clean_text s | _ \<Rightarrow> ''''))"
proof (cases "map_of row k")
  case None
  then show ?thesis
    by (simp add: dict_get_def map_of_as_pydict clean_value_str clean_text_Nil)
next
  case (Some v)
  show ?thesis
  proof (cases v)
    case None
    with Some show ?thesis
      by (simp add: dict_get_def map_of_as_pydict clean_value_def)
  next
    case (Some s)
    with \<open>map_of row k = Some v\<close> show ?thesis
      by (simp add: dict_get_def map_of_as_pydict clean_value_str)
  qed
qed

lemma clean_fields_row:
  "clean_fields py_repr (as_pydict row) ks =
     Some (Inr (map (\<lambda>k. case map_of row k of Some (Some s) \<Rightarrow> clean_text s | _ \<Rightarrow> '''') ks))"
  by (induction ks) (simp_all add: clean_value_row_field)

lemma cleaned_row_of_csv_row: "cleaned_row py_repr (as_pydict row) = Some (Inr (row_cells row))"
  by (simp add: cleaned_row_def row_cells_def clean_fields_row)

lemma write_rows_of_csv_rows:
  "write_rows writerow py_repr (map as_pydict rows) =
     Some (Inr (concat (map (\<lambda>r. writerow (row_cells r)) rows)))"
  by (induction rows) (simp_all add: cleaned_row_of_csv_row)

subsection \<open>The reading loop keeps the first row of each key\<close>

lemma set_first_occurrences: "key ` set (first_occurrences key rs) = key ` set rs"
proof (induction "length rs" arbitrary: rs rule: less_induct)
  case less
  show ?case
  proof (cases rs)
    case Nil
    then show ?thesis by simp
  next
    case (Cons r rest)
    have "length (filter (\<lambda>r'. key r' \<noteq> key r) rest) < length rs"
      using Cons by (simp add: le_imp_less_Suc)
    from less [OF this] Cons show ?thesis by auto
  qed
qed



lemma first_occurrences_distinct_id:
  "distinct (map key rs) \<Longrightarrow> first_occurrences key rs = rs"
proof (induction rs)
  case Nil
  show ?case by simp
next
  case (Cons r rs)
  have "key r \<notin> key ` set rs"
    using Cons.prems by simp
  then have "\<forall>x \<in> set rs. key x \<noteq> key r"
    by (metis imageI)
  then have "filter (\<lambda>r'. key r' \<noteq> key r) rs = rs"
    by (simp add: filter_id_conv)
  with Cons show ?case by simp
qed

lemma read_rows_first_occurrences:
  assumes "\<forall>r \<in> set rows. entry_key py_repr (as_pydict r) = Inr (key r)"
  shows "read_rows py_repr (map as_pydict rows) entries (map as_pydict acc) =
           Inr (entries @ map key (first_occurrences key (filter (\<lambda>r. key r \<notin> set entries) rows)),
                map as_pydict (acc @ first_occurrences key (filter (\<lambda>r. key r \<notin> set entries) rows)))"
  using assms
proof (induction rows arbitrary: entries acc)
  case Nil
  show ?case by simp
next
  case (Cons r rows)
  have k: "entry_key py_repr (as_pydict r) = Inr (key r)"
    using Cons.prems by simp
  have rest: "\<forall>r \<in> set rows. entry_key py_repr (as_pydict r) = Inr (key r)"
    using Cons.prems by simp
  show ?case
  proof (cases "key r \<in> set entries")
    case True
    then show ?thesis
      using Cons.IH [OF rest, of entries acc] by (simp add: k)
  next
    case False
    have f: "(\<lambda>x. key x \<noteq> key r \<and> key x \<notin> set entries)
               = (\<lambda>x. key x \<notin> set entries \<and> key x \<noteq> key r)"
      by auto
    from False show ?thesis
      using Cons.IH [OF rest, of "entries @ [key r]" "acc @ [r]"] by (simp add: k f)
  qed
qed

subsection \<open>The whole merge\<close>

lemma entry_key_row:
  "has_key_columns row \<Longrightarrow> entry_key py_repr (as_pydict row) = Inr (row_key row)"
  by (auto simp: has_key_columns_def entry_key_def py_item_def map_of_as_pydict row_key_def
      cell_str_def split: option.splits)


lemma write_new_entry_key:
  assumes "entry_key py_repr data = Inr k"
  shows "write_new_entry writerow py_repr output entries data =
           (if k \<notin> set entries
            then bind_run (cleaned_row py_repr data) (\<lambda>cells.
                   Some (Inr ((if output = [] then writerow FIELDNAMES else output) @ writerow cells)))
            else Some (Inr output))"
  using assms by (simp add: write_new_entry_def)

lemma save_valid:
  assumes nonblank: "py_strip is_space existing_csv \<noteq> []"
    and comma: "CHR '','' \<in> set existing_csv"
    and read: "DictReader existing_csv = (rows, False)"
    and cols: "\<forall>r \<in> set rows. has_key_columns r"
  shows "save_consolidated_data DictReader writerow py_repr (Body existing_csv) data =
           write_new_entry writerow py_repr
             (writerow FIELDNAMES
                @ concat (map (\<lambda>r. writerow (row_cells r)) (first_occurrences row_key rows)))
             (map row_key (first_occurrences row_key rows)) data"
proof -
  have keys: "\<forall>r \<in> set rows. entry_key py_repr (as_pydict r) = Inr (row_key r)"
    using cols by (simp add: entry_key_row)
  have "read_rows py_repr (map as_pydict rows) [] (map as_pydict []) =
          Inr ([] @ map row_key (first_occurrences row_key (filter (\<lambda>r. row_key r \<notin> set []) rows)),
               map as_pydict ([] @ first_occurrences row_key (filter (\<lambda>r. row_key r \<notin> set []) rows)))"
    using keys by (rule read_rows_first_occurrences)
  then have rd: "read_rows py_repr (map as_pydict rows) [] [] =
          Inr (map row_key (first_occurrences row_key rows),
               map as_pydict (first_occurrences row_key rows))"
    by simp
  show ?thesis
    by (simp add: save_consolidated_data_def nonblank comma read rd write_rows_of_csv_rows)
qed

lemma save_fresh:
  assumes "existing = NoSuchKey \<or>
           (\<exists>s. existing = Body s \<and> \<not> (py_strip is_space s \<noteq> [] \<and> CHR '','' \<in> set s))"
    and "entry_key py_repr data = Inr k"
  shows "save_consolidated_data DictReader writerow py_repr existing data =
           bind_run (cleaned_row py_repr data) (\<lambda>cells.
             Some (Inr (writerow FIELDNAMES @ writerow cells)))"
  using assms by (auto simp: save_consolidated_data_def write_new_entry_key)



lemma save_appends:
  assumes nonblank: "py_strip is_space existing_csv \<noteq> []"
    and comma: "CHR '','' \<in> set existing_csv"
    and read: "DictReader existing_csv = (rows, False)"
    and cols: "\<forall>r \<in> set rows. has_key_columns r"
    and new_key: "entry_key py_repr data = Inr k"
    and fresh: "k \<notin> row_key ` set rows"
    and cleaned: "cleaned_row py_repr data = Some (Inr cells)"
  shows "save_consolidated_data DictReader writerow py_repr (Body existing_csv) data =
           Some (Inr (writerow FIELDNAMES
                      @ concat (map (\<lambda>r. writerow (row_cells r))
                                  (first_occurrences row_key rows))
                      @ writerow cells))"
proof -
  have "k \<notin> set (map row_key (first_occurrences row_key rows))"
    using fresh by (simp add: set_first_occurrences)
  then show ?thesis
    by (simp add: save_valid [where DictReader = DictReader, OF nonblank comma read cols]
        write_new_entry_key [OF new_key] cleaned)
qed




text \<open>
  C8. When the stored object holds bytes that are not UTF-8, \<^verbatim>\<open>decode('utf-8')\<close> at line
  282 raises UnicodeDecodeError, which the handler at line 302 (NoSuchKey, csv.Error)
  does not catch: the merge raises and writes nothing. (An absent object, and a text
  that is blank or has no comma, do give the header and the new record: \<open>save_fresh\<close>.)
\<close>

theorem undecodable_dataset_raises:
  "save_consolidated_data DictReader writerow py_repr Undecodable data
     = Some (Inl UnicodeDecodeError)"
  by (simp add: save_consolidated_data_def)




subsection \<open>Merging the same record twice\<close>

lemma concat_map_one: "concat (map f [x]) = f x"
  by simp

lemma distinct_FIELDNAMES: "distinct FIELDNAMES"
  by (simp add: FIELDNAMES_def)

lemma length_FIELDNAMES: "length FIELDNAMES = 23"
  by (simp add: FIELDNAMES_def)

lemma clean_fields_length:
  "clean_fields py_repr row ks = Some (Inr cs) \<Longrightarrow> length cs = length ks"
proof (induction ks arbitrary: cs)
  case Nil
  then show ?case by simp
next
  case (Cons k ks)
  then show ?case
    by (auto simp: bind_run_def split: option.splits sum.splits)
qed

lemma cleaned_row_length: "cleaned_row py_repr row = Some (Inr cells) \<Longrightarrow> length cells = 23"
  using clean_fields_length [of py_repr row FIELDNAMES cells]
  by (simp add: cleaned_row_def length_FIELDNAMES)

lemma map_of_written_row:
  assumes "length cells = 23" and "i < 23"
  shows "map_of (zip FIELDNAMES (map Some cells)) (FIELDNAMES ! i) = Some (Some (cells ! i))"
  using map_of_zip_nth [of FIELDNAMES "map Some cells" i] assms
  by (simp add: distinct_FIELDNAMES length_FIELDNAMES)

lemma row_cells_written_row:
  assumes len: "length cells = 23"
  shows "row_cells (zip FIELDNAMES (map Some cells)) = map clean_text cells"
proof (rule nth_equalityI)
  show "length (row_cells (zip FIELDNAMES (map Some cells))) = length (map clean_text cells)"
    by (simp add: row_cells_def len length_FIELDNAMES)
next
  fix i
  assume "i < length (row_cells (zip FIELDNAMES (map Some cells)))"
  then have i: "i < 23"
    by (simp add: row_cells_def length_FIELDNAMES)
  then show "row_cells (zip FIELDNAMES (map Some cells)) ! i = map clean_text cells ! i"
    by (simp add: row_cells_def length_FIELDNAMES len map_of_written_row [OF len i])
qed

lemma written_row_key:
  assumes len: "length cells = 23"
  shows "has_key_columns (zip FIELDNAMES (map Some cells))"
    and "row_key (zip FIELDNAMES (map Some cells)) = cells_key cells"
proof -
  have ts: "FIELDNAMES ! 0 = ''timestamp''" and rg: "FIELDNAMES ! Suc 0 = ''region''"
    by (simp_all add: FIELDNAMES_def)
  have t: "map_of (zip FIELDNAMES (map Some cells)) ''timestamp'' = Some (Some (cells ! 0))"
    using map_of_written_row [OF len, of 0] by (simp add: ts)
  have r: "map_of (zip FIELDNAMES (map Some cells)) ''region'' = Some (Some (cells ! 1))"
    using map_of_written_row [OF len, of "Suc 0"] by (simp add: rg)
  show "has_key_columns (zip FIELDNAMES (map Some cells))"
    by (simp add: has_key_columns_def t r)
  obtain a b rest where "cells = a # b # rest"
    using len by (cases cells; cases "tl cells") auto
  then show "row_key (zip FIELDNAMES (map Some cells)) = cells_key cells"
    using t r by (simp add: row_key_def cells_key_def cell_str_def)
qed

text \<open>
  C6, as stated: merging any record twice gives one row. The key of the new record is
  taken from its raw fields, the key of a stored row from the cleaned fields that were
  written. For a region with a leading space the two differ, and the second merge appends
  the record again.
\<close>

theorem merge_twice_counterexample:
  "save_consolidated_data csv_DictReader csv_writerow (\<lambda>v. Inr []) NoSuchKey
     [(''timestamp'', PStr ''T''), (''region'', PStr '' X'')]
   = Some (Inr (csv_writerow FIELDNAMES @ csv_writerow (''T'' # ''X'' # replicate 21 [])))
   \<and> save_consolidated_data csv_DictReader csv_writerow (\<lambda>v. Inr [])
       (Body (csv_writerow FIELDNAMES @ csv_writerow (''T'' # ''X'' # replicate 21 [])))
       [(''timestamp'', PStr ''T''), (''region'', PStr '' X'')]
     = Some (Inr (csv_writerow FIELDNAMES
                  @ csv_writerow (''T'' # ''X'' # replicate 21 [])
                  @ csv_writerow (''T'' # ''X'' # replicate 21 [])))"
proof -
  let ?d = "[(''timestamp'', PStr ''T''), (''region'', PStr '' X'')]"
  let ?cells = "''T'' # ''X'' # replicate 21 []"
  let ?out = "csv_writerow FIELDNAMES @ csv_writerow ?cells"
  let ?row = "zip FIELDNAMES (map Some ?cells)"
  have key: "entry_key (\<lambda>v. Inr []) ?d = Inr ''T_ X''"
    by (simp add: entry_key_def py_item_def)
  have cleaned: "cleaned_row (\<lambda>v. Inr []) ?d = Some (Inr ?cells)" by code_simp
  have first: "save_consolidated_data csv_DictReader csv_writerow (\<lambda>v. Inr []) NoSuchKey ?d
                 = Some (Inr ?out)"
    by (simp only: save_fresh [OF disjI1 [OF refl] key] cleaned bind_run_simps)
  have nonblank: "py_strip is_space ?out \<noteq> []" by code_simp
  have comma: "CHR '','' \<in> set ?out" by code_simp
  have read: "csv_DictReader ?out = ([?row], False)" by code_simp
  have cols: "\<forall>r \<in> set [?row]. has_key_columns r" by code_simp
  have fresh: "''T_ X'' \<notin> row_key ` set [?row]" by code_simp
  have kept: "first_occurrences row_key [?row] = [?row]" by simp
  have cells: "row_cells ?row = ?cells" by code_simp
  have second: "save_consolidated_data csv_DictReader csv_writerow (\<lambda>v. Inr []) (Body ?out) ?d
                 = Some (Inr (?out @ csv_writerow ?cells))"
    unfolding save_appends [where DictReader = csv_DictReader
        and writerow = csv_writerow, OF nonblank comma read cols key fresh cleaned] kept
      concat_map_one cells
    by (simp only: append_assoc)
  from first second show ?thesis by (simp only: append_assoc simp_thms)
qed

text \<open>
  C6, amended. For a record whose composite key is the same before and after cleaning
  (as for every record of the pipeline), and a csv reader that gives back the row that
  was written: merging the record into an absent or empty dataset gives the header and
  the one row; merging it again into that result appends nothing and uploads the header
  and the same row, cleaned once more.
\<close>

theorem merge_twice_one_row:
  assumes new_key: "entry_key py_repr data = Inr k"
    and cleaned: "cleaned_row py_repr data = Some (Inr cells)"
    and stable: "cells_key cells = k"
    and nonblank: "py_strip is_space (writerow FIELDNAMES @ writerow cells) \<noteq> []"
    and comma: "CHR '','' \<in> set (writerow FIELDNAMES @ writerow cells)"
    and read: "DictReader (writerow FIELDNAMES @ writerow cells)
                 = ([zip FIELDNAMES (map Some cells)], False)"
  shows "save_consolidated_data DictReader writerow py_repr NoSuchKey data
           = Some (Inr (writerow FIELDNAMES @ writerow cells))
       \<and> save_consolidated_data DictReader writerow py_repr (Body []) data
           = Some (Inr (writerow FIELDNAMES @ writerow cells))
       \<and> save_consolidated_data DictReader writerow py_repr
             (Body (writerow FIELDNAMES @ writerow cells)) data
           = Some (Inr (writerow FIELDNAMES @ writerow (map clean_text cells)))"
proof -
  let ?row = "zip FIELDNAMES (map Some cells)"
  have len: "length cells = 23"
    using cleaned by (rule cleaned_row_length)
  have absent: "save_consolidated_data DictReader writerow py_repr NoSuchKey data
           = Some (Inr (writerow FIELDNAMES @ writerow cells))"
    by (simp add: save_fresh [OF disjI1 [OF refl] new_key] cleaned)
  have "\<exists>s. Body [] = Body s \<and> \<not> (py_strip is_space s \<noteq> [] \<and> CHR '','' \<in> set s)"
    by simp
  then have empty: "save_consolidated_data DictReader writerow py_repr (Body []) data
           = Some (Inr (writerow FIELDNAMES @ writerow cells))"
    by (simp add: save_fresh [OF disjI2 new_key] cleaned)
  have cols: "\<forall>r \<in> set [?row]. has_key_columns r"
    by (simp add: written_row_key(1) [OF len])
  have present: "k \<in> set (map row_key (first_occurrences row_key [?row]))"
    by (simp add: written_row_key(2) [OF len] stable)
  have again: "save_consolidated_data DictReader writerow py_repr
             (Body (writerow FIELDNAMES @ writerow cells)) data
           = Some (Inr (writerow FIELDNAMES @ writerow (map clean_text cells)))"
    unfolding save_valid [where DictReader = DictReader, OF nonblank comma read cols]
      write_new_entry_key [OF new_key]
    using present by (simp add: row_cells_written_row [OF len])
  from absent empty again show ?thesis by blast
qed

theorem merge_twice_one_row_witness:
  "save_consolidated_data csv_DictReader csv_writerow (\<lambda>v. Inr [])
     (Body (csv_writerow FIELDNAMES
            @ csv_writerow (''2024-01-01 00:00:00'' # ''Phoenix_AZ'' # replicate 12 []
                 @ [[dquote] @ ''Sunny, hot'' @ [dquote]] @ replicate 8 [])))
     [(''timestamp'', PStr ''2024-01-01 00:00:00''), (''region'', PStr ''Phoenix_AZ''),
      (''short_forecast'', PStr ''Sunny, hot'')]
   = Some (Inr (csv_writerow FIELDNAMES
            @ csv_writerow (''2024-01-01 00:00:00'' # ''Phoenix_AZ'' # replicate 12 []
                 @ [[dquote] @ ''Sunny, hot'' @ [dquote]] @ replicate 8 [])))"
proof -
  let ?d = "[(''timestamp'', PStr ''2024-01-01 00:00:00''), (''region'', PStr ''Phoenix_AZ''),
      (''short_forecast'', PStr ''Sunny, hot'')]"
  let ?cells = "''2024-01-01 00:00:00'' # ''Phoenix_AZ'' # replicate 12 []
                 @ [[dquote] @ ''Sunny, hot'' @ [dquote]] @ replicate 8 []"
  let ?out = "csv_writerow FIELDNAMES @ csv_writerow ?cells"
  have key: "entry_key (\<lambda>v. Inr []) ?d = Inr ''2024-01-01 00:00:00_Phoenix_AZ''"
    by (simp add: entry_key_def py_item_def)
  have cleaned: "cleaned_row (\<lambda>v. Inr []) ?d = Some (Inr ?cells)" by code_simp
  have stable: "cells_key ?cells = ''2024-01-01 00:00:00_Phoenix_AZ''" by code_simp
  have nonblank: "py_strip is_space ?out \<noteq> []" by code_simp
  have comma: "CHR '','' \<in> set ?out" by code_simp
  have read: "csv_DictReader ?out = ([zip FIELDNAMES (map Some ?cells)], False)" by code_simp
  have again: "map clean_text ?cells = ?cells" by code_simp
  from merge_twice_one_row [where DictReader = csv_DictReader and writerow = csv_writerow,
      OF key cleaned stable nonblank comma read]
  show ?thesis unfolding again by blast
qed


end
